theory Spec2Isabelle
  imports
    Complex_Main
    "HOL-Library.Word"
    "HOL-Library.Char_ord"
    "HOL-Library.List_Lexorder"
    "HOL-Library.Multiset"
begin

unbundle bit_operations_syntax

section \<open>The runtime library the sources call\<close>

subsection \<open>SHA-256 (Node's \<open>createHash('sha256')\<close>)\<close>

text \<open>
  \<open>src/util/index.ts\<close> hashes with Node's \<open>crypto\<close> module. The digest is
  modelled by the algorithm itself, on bytes, so that a digest of a concrete input can be
  computed inside the logic. Strings are byte strings: the identifiers, timestamps, digits
  and hexadecimal digests the program hashes and sorts are ASCII, where JavaScript's
  UTF-16 code units, their UTF-8 encoding and the order of both coincide.
\<close>

type_synonym u32 = "32 word"
type_synonym byte = "8 word"

definition sha256_K :: "u32 list" where
  "sha256_K =
    [1116352408, 1899447441, 3049323471, 3921009573, 961987163, 1508970993,
     2453635748, 2870763221, 3624381080, 310598401, 607225278, 1426881987,
     1925078388, 2162078206, 2614888103, 3248222580, 3835390401, 4022224774,
     264347078, 604807628, 770255983, 1249150122, 1555081692, 1996064986,
     2554220882, 2821834349, 2952996808, 3210313671, 3336571891, 3584528711,
     113926993, 338241895, 666307205, 773529912, 1294757372, 1396182291,
     1695183700, 1986661051, 2177026350, 2456956037, 2730485921, 2820302411,
     3259730800, 3345764771, 3516065817, 3600352804, 4094571909, 275423344,
     430227734, 506948616, 659060556, 883997877, 958139571, 1322822218,
     1537002063, 1747873779, 1955562222, 2024104815, 2227730452, 2361852424,
     2428436474, 2756734187, 3204031479, 3329325298]"

definition sha256_H0 :: "u32 list" where
  "sha256_H0 = [1779033703, 3144134277, 1013904242, 2773480762,
                1359893119, 2600822924, 528734635, 1541459225]"

definition rotr :: "nat \<Rightarrow> u32 \<Rightarrow> u32" where
  "rotr n x = drop_bit n x OR push_bit (32 - n) x"

definition ssig0 :: "u32 \<Rightarrow> u32" where
  "ssig0 x = rotr 7 x XOR rotr 18 x XOR drop_bit 3 x"

definition ssig1 :: "u32 \<Rightarrow> u32" where
  "ssig1 x = rotr 17 x XOR rotr 19 x XOR drop_bit 10 x"

definition bsig0 :: "u32 \<Rightarrow> u32" where
  "bsig0 x = rotr 2 x XOR rotr 13 x XOR rotr 22 x"

definition bsig1 :: "u32 \<Rightarrow> u32" where
  "bsig1 x = rotr 6 x XOR rotr 11 x XOR rotr 25 x"

definition ch :: "u32 \<Rightarrow> u32 \<Rightarrow> u32 \<Rightarrow> u32" where
  "ch x y z = (x AND y) XOR (NOT x AND z)"

definition maj :: "u32 \<Rightarrow> u32 \<Rightarrow> u32 \<Rightarrow> u32" where
  "maj x y z = (x AND y) XOR (x AND z) XOR (y AND z)"

text \<open>The message length in bits, as eight big-endian bytes.\<close>

definition be64 :: "nat \<Rightarrow> byte list" where
  "be64 n =
     (let w = (word_of_nat n :: 64 word)
      in [ucast (drop_bit 56 w), ucast (drop_bit 48 w), ucast (drop_bit 40 w),
          ucast (drop_bit 32 w), ucast (drop_bit 24 w), ucast (drop_bit 16 w),
          ucast (drop_bit 8 w), ucast w])"

definition sha256_pad :: "byte list \<Rightarrow> byte list" where
  "sha256_pad m =
     m @ [128] @ replicate ((119 - length m mod 64) mod 64) 0 @ be64 (8 * length m)"

fun be_words :: "byte list \<Rightarrow> u32 list" where
  "be_words (a # b # c # d # r) =
     (push_bit 24 (ucast a) OR push_bit 16 (ucast b) OR push_bit 8 (ucast c) OR ucast d)
       # be_words r"
| "be_words _ = []"

text \<open>
  The message schedule, newest word first: the head of the list is \<open>W[t-1]\<close>, so
  \<open>W[t-2]\<close>, \<open>W[t-7]\<close>, \<open>W[t-15]\<close> and \<open>W[t-16]\<close> stand at 1, 6, 14 and 15.
\<close>

fun schedule :: "nat \<Rightarrow> u32 list \<Rightarrow> u32 list" where
  "schedule 0 w = w"
| "schedule (Suc n) w =
     schedule n ((ssig1 (w ! 1) + w ! 6 + ssig0 (w ! 14) + w ! 15) # w)"

fun sha_round :: "u32 list \<Rightarrow> u32 \<times> u32 \<Rightarrow> u32 list" where
  "sha_round [a, b, c, d, e, f, g, h] (k, w) =
     (let t1 = h + bsig1 e + ch e f g + k + w;
          t2 = bsig0 a + maj a b c
      in [t1 + t2, a, b, c, d + t1, e, f, g])"
| "sha_round s _ = s"

definition compress :: "u32 list \<Rightarrow> u32 list \<Rightarrow> u32 list" where
  "compress hs blk =
     map2 (+) hs (foldl sha_round hs (zip sha256_K (rev (schedule 48 (rev blk)))))"

text \<open>One 512-bit block (sixteen words) at a time.\<close>

fun sha256_blocks :: "u32 list \<Rightarrow> u32 list \<Rightarrow> u32 list" where
  "sha256_blocks hs (w0 # w1 # w2 # w3 # w4 # w5 # w6 # w7 # w8 # w9 # w10 # w11 # w12 #
       w13 # w14 # w15 # r) =
     sha256_blocks
       (compress hs [w0, w1, w2, w3, w4, w5, w6, w7, w8, w9, w10, w11, w12, w13, w14, w15]) r"
| "sha256_blocks hs _ = hs"

definition word_bytes :: "u32 \<Rightarrow> byte list" where
  "word_bytes w = [ucast (drop_bit 24 w), ucast (drop_bit 16 w), ucast (drop_bit 8 w), ucast w]"

definition sha256_digest :: "byte list \<Rightarrow> byte list" where
  "sha256_digest m = concat (map word_bytes (sha256_blocks sha256_H0 (be_words (sha256_pad m))))"

definition hex_digit :: "nat \<Rightarrow> char" where
  "hex_digit n = ''0123456789abcdef'' ! n"

definition hex_byte :: "byte \<Rightarrow> string" where
  "hex_byte b = [hex_digit (unat b div 16), hex_digit (unat b mod 16)]"

definition utf8 :: "string \<Rightarrow> byte list" where
  "utf8 s = map (\<lambda>c. word_of_nat (of_char c)) s"

text \<open>\<open>createHash('sha256').update(data).digest('hex')\<close>\<close>

definition sha256 :: "string \<Rightarrow> string" where
  "sha256 data = concat (map hex_byte (sha256_digest (utf8 data)))"

subsection \<open>Numbers\<close>

text \<open>
  A JavaScript number is \<open>NaN\<close>, an infinity or a finite value. Finite values are
  modelled by the reals with exact arithmetic: the rounding of a double after each
  operation, overflow to an infinity and the sign of zero are not modelled. The operators
  follow IEEE 754 on the special values; a division by zero takes the zero as positive.
\<close>

datatype jsnum = NaN | Infinity | NegInfinity | Fin real

instantiation jsnum :: "{zero, one, plus, uminus, times, divide, ord}"
begin

definition zero_jsnum :: jsnum where
  "zero_jsnum = Fin 0"

definition one_jsnum :: jsnum where
  "one_jsnum = Fin 1"

fun uminus_jsnum :: "jsnum \<Rightarrow> jsnum" where
  "uminus_jsnum NaN = NaN"
| "uminus_jsnum Infinity = NegInfinity"
| "uminus_jsnum NegInfinity = Infinity"
| "uminus_jsnum (Fin x) = Fin (- x)"

fun plus_jsnum :: "jsnum \<Rightarrow> jsnum \<Rightarrow> jsnum" where
  "plus_jsnum (Fin x) (Fin y) = Fin (x + y)"
| "plus_jsnum NaN _ = NaN"
| "plus_jsnum _ NaN = NaN"
| "plus_jsnum Infinity NegInfinity = NaN"
| "plus_jsnum NegInfinity Infinity = NaN"
| "plus_jsnum Infinity _ = Infinity"
| "plus_jsnum _ Infinity = Infinity"
| "plus_jsnum NegInfinity _ = NegInfinity"
| "plus_jsnum _ NegInfinity = NegInfinity"

fun times_jsnum :: "jsnum \<Rightarrow> jsnum \<Rightarrow> jsnum" where
  "times_jsnum (Fin x) (Fin y) = Fin (x * y)"
| "times_jsnum NaN _ = NaN"
| "times_jsnum _ NaN = NaN"
| "times_jsnum Infinity Infinity = Infinity"
| "times_jsnum Infinity NegInfinity = NegInfinity"
| "times_jsnum NegInfinity Infinity = NegInfinity"
| "times_jsnum NegInfinity NegInfinity = Infinity"
| "times_jsnum Infinity (Fin y) =
     (if y = 0 then NaN else if 0 < y then Infinity else NegInfinity)"
| "times_jsnum NegInfinity (Fin y) =
     (if y = 0 then NaN else if 0 < y then NegInfinity else Infinity)"
| "times_jsnum (Fin x) Infinity =
     (if x = 0 then NaN else if 0 < x then Infinity else NegInfinity)"
| "times_jsnum (Fin x) NegInfinity =
     (if x = 0 then NaN else if 0 < x then NegInfinity else Infinity)"

fun divide_jsnum :: "jsnum \<Rightarrow> jsnum \<Rightarrow> jsnum" where
  "divide_jsnum (Fin x) (Fin y) =
     (if y \<noteq> 0 then Fin (x / y)
      else if x = 0 then NaN else if 0 < x then Infinity else NegInfinity)"
| "divide_jsnum NaN _ = NaN"
| "divide_jsnum _ NaN = NaN"
| "divide_jsnum (Fin x) _ = Fin 0"
| "divide_jsnum Infinity (Fin y) = (if 0 \<le> y then Infinity else NegInfinity)"
| "divide_jsnum NegInfinity (Fin y) = (if 0 \<le> y then NegInfinity else Infinity)"
| "divide_jsnum _ _ = NaN"

fun less_eq_jsnum :: "jsnum \<Rightarrow> jsnum \<Rightarrow> bool" where
  "less_eq_jsnum (Fin x) (Fin y) = (x \<le> y)"
| "less_eq_jsnum NaN _ = False"
| "less_eq_jsnum _ NaN = False"
| "less_eq_jsnum NegInfinity _ = True"
| "less_eq_jsnum _ Infinity = True"
| "less_eq_jsnum _ _ = False"

fun less_jsnum :: "jsnum \<Rightarrow> jsnum \<Rightarrow> bool" where
  "less_jsnum (Fin x) (Fin y) = (x < y)"
| "less_jsnum NaN _ = False"
| "less_jsnum _ NaN = False"
| "less_jsnum Infinity _ = False"
| "less_jsnum _ NegInfinity = False"
| "less_jsnum _ _ = True"

instance ..

end

instantiation jsnum :: "{minus, inverse}"
begin

definition minus_jsnum :: "jsnum \<Rightarrow> jsnum \<Rightarrow> jsnum" where
  "minus_jsnum a b = a + (- b)"

definition inverse_jsnum :: "jsnum \<Rightarrow> jsnum" where
  "inverse_jsnum a = 1 div a"

instance ..

end

instance jsnum :: semigroup_add
proof
  fix a b c :: jsnum
  show "a + b + c = a + (b + c)"
    by (cases a; cases b; cases c) simp_all
qed

instance jsnum :: numeral ..

instance jsnum :: power ..

text \<open>\<open>ToNumber\<close> of a value that may be \<open>undefined\<close>.\<close>

definition ToNumber :: "jsnum option \<Rightarrow> jsnum" where
  "ToNumber v = (case v of None \<Rightarrow> NaN | Some n \<Rightarrow> n)"

text \<open>
  The functions of \<open>Math\<close> that ECMAScript specifies exactly. \<open>Math.round\<close> rounds a
  tie upwards; \<open>Math.min\<close> and \<open>Math.max\<close> return \<open>NaN\<close> when an argument is
  \<open>NaN\<close>.
\<close>

fun Math_floor :: "jsnum \<Rightarrow> jsnum" where
  "Math_floor (Fin x) = Fin (of_int \<lfloor>x\<rfloor>)"
| "Math_floor v = v"

fun Math_round :: "jsnum \<Rightarrow> jsnum" where
  "Math_round (Fin x) = Fin (of_int \<lfloor>x + 1 / 2\<rfloor>)"
| "Math_round v = v"

fun Math_abs :: "jsnum \<Rightarrow> jsnum" where
  "Math_abs (Fin x) = Fin \<bar>x\<bar>"
| "Math_abs NaN = NaN"
| "Math_abs _ = Infinity"

definition Math_min :: "jsnum \<Rightarrow> jsnum \<Rightarrow> jsnum" where
  "Math_min a b = (if a = NaN \<or> b = NaN then NaN else if a \<le> b then a else b)"

definition Math_max :: "jsnum \<Rightarrow> jsnum \<Rightarrow> jsnum" where
  "Math_max a b = (if a = NaN \<or> b = NaN then NaN else if a \<le> b then b else a)"

subsection \<open>The host: what the engine and its environment decide\<close>

text \<open>
  The transcendental functions of \<open>Math\<close> are implementation-approximated, the start of
  the local year depends on the time zone of the machine, and \<open>Number(string)\<close>,
  \<open>Number.prototype.toString\<close> in exponent notation and \<open>Date.prototype.toISOString\<close> are
  library code. They are parameters of the model: every theorem below holds for every host.
\<close>

record host =
  Math_PI :: jsnum
  Math_sin :: "jsnum \<Rightarrow> jsnum"
  Math_cos :: "jsnum \<Rightarrow> jsnum"
  Math_tan :: "jsnum \<Rightarrow> jsnum"
  Math_asin :: "jsnum \<Rightarrow> jsnum"
  Math_atan2 :: "jsnum \<Rightarrow> jsnum \<Rightarrow> jsnum"
  Math_exp :: "jsnum \<Rightarrow> jsnum"
  Math_log :: "jsnum \<Rightarrow> jsnum"
  Math_sqrt :: "jsnum \<Rightarrow> jsnum"
  Math_pow :: "jsnum \<Rightarrow> jsnum \<Rightarrow> jsnum"
  Number_of_string :: "string \<Rightarrow> jsnum"
  Number_toString :: "jsnum \<Rightarrow> string"
  Date_localYearStart :: "int \<Rightarrow> int"
  Date_toISOString :: "int \<Rightarrow> string"

subsection \<open>Strings and arrays\<close>

text \<open>The decimal digits of a natural number, as a template literal renders an integer.\<close>

function show_nat :: "nat \<Rightarrow> string" where
  "show_nat n =
     (if n < 10 then [''0123456789'' ! n]
      else show_nat (n div 10) @ [''0123456789'' ! (n mod 10)])"
  by pat_completeness auto
termination
  by (relation "measure id") auto

declare show_nat.simps [simp del]

text \<open>\<open>Number.prototype.toString\<close> of an integer below \<open>10^21\<close> in magnitude.\<close>

definition show_int :: "int \<Rightarrow> string" where
  "show_int i = (if i < 0 then ''-'' @ show_nat (nat (- i)) else show_nat (nat i))"

text \<open>\<open>Array.prototype.join\<close> on strings.\<close>

fun join :: "string \<Rightarrow> string list \<Rightarrow> string" where
  "join sep [] = []"
| "join sep [x] = x"
| "join sep (x # y # ys) = x @ sep @ join sep (y # ys)"

text \<open>\<open>String.prototype.split\<close> at a one-character separator.\<close>

fun split_at :: "char \<Rightarrow> string \<Rightarrow> string list" where
  "split_at sep [] = [[]]"
| "split_at sep (c # cs) =
     (if c = sep then [] # split_at sep cs
      else (case split_at sep cs of [] \<Rightarrow> [[c]] | p # ps \<Rightarrow> (c # p) # ps))"

text \<open>\<open>String.prototype.startsWith\<close> and \<open>String.prototype.includes\<close>.\<close>

definition startsWith :: "string \<Rightarrow> string \<Rightarrow> bool" where
  "startsWith s p = (take (length p) s = p)"

fun String_includes :: "string \<Rightarrow> string \<Rightarrow> bool" where
  "String_includes [] sub = (sub = [])"
| "String_includes (c # cs) sub = (startsWith (c # cs) sub \<or> String_includes cs sub)"

text \<open>An array read \<open>xs[i]\<close>: \<open>None\<close> is \<open>undefined\<close>.\<close>

definition array_get :: "'a list \<Rightarrow> nat \<Rightarrow> 'a option" where
  "array_get xs i = (if i < length xs then Some (xs ! i) else None)"

text \<open>An array read at a number: only an integer index in range names an element.\<close>

definition array_at :: "'a list \<Rightarrow> jsnum \<Rightarrow> 'a option" where
  "array_at xs i =
     (case i of
        Fin r \<Rightarrow> if r = of_int \<lfloor>r\<rfloor> \<and> 0 \<le> r then array_get xs (nat \<lfloor>r\<rfloor>) else None
      | _ \<Rightarrow> None)"

text \<open>
  \<open>Number.prototype.toFixed\<close> (ECMAScript 21.1.3.3): the sign is that of the value
  itself, also when the digits round to zero; a magnitude of \<open>10^21\<close> or more is rendered
  by \<open>toString\<close>; otherwise \<open>n\<close> is the integer nearest to the magnitude times \<open>10^f\<close>,
  the larger one on a tie, padded on the left to \<open>f + 1\<close> digits.
\<close>

definition fixed_digits :: "nat \<Rightarrow> nat \<Rightarrow> string" where
  "fixed_digits n f =
     (let m = show_nat n;
          m = (if f \<noteq> 0 \<and> length m \<le> f then replicate (f + 1 - length m) CHR ''0'' @ m else m)
      in if f \<noteq> 0 then take (length m - f) m @ ''.'' @ drop (length m - f) m else m)"

definition toFixed :: "host \<Rightarrow> jsnum \<Rightarrow> nat \<Rightarrow> string" where
  "toFixed h x f =
     (case x of
        NaN \<Rightarrow> ''NaN''
      | Infinity \<Rightarrow> ''Infinity''
      | NegInfinity \<Rightarrow> ''-Infinity''
      | Fin r \<Rightarrow>
          (let s = (if r < 0 then ''-'' else '''');
               a = \<bar>r\<bar>
           in if 10 ^ 21 \<le> a then s @ Number_toString h (Fin a)
              else s @ fixed_digits (nat \<lfloor>a * 10 ^ f + 1 / 2\<rfloor>) f))"

section \<open>\<open>src/util/index.ts\<close>\<close>

subsection \<open>\<open>DeterministicRNG\<close>\<close>

text \<open>
  The object holds the four state words and the spare value of \<open>normal\<close>. \<open>draws\<close> is
  not a field of the class: it counts the calls of \<open>next()\<close> made on the object, so that
  a statement can say that a draw was or was not taken.
\<close>

record rng =
  state :: "u32 \<times> u32 \<times> u32 \<times> u32"
  spare :: "jsnum option"
  draws :: nat

text \<open>\<open>Buffer.readUInt32LE(offset)\<close>\<close>

definition readUInt32LE :: "byte list \<Rightarrow> nat \<Rightarrow> u32" where
  "readUInt32LE buf off =
     ucast (buf ! off) OR push_bit 8 (ucast (buf ! (off + 1)))
       OR push_bit 16 (ucast (buf ! (off + 2))) OR push_bit 24 (ucast (buf ! (off + 3)))"

text \<open>
  The constructor, for an integer seed below \<open>10^21\<close> in magnitude (whose \<open>toString()\<close> is
  its decimal digits). The digest has 32 bytes, so the four reads are in range.
\<close>

definition DeterministicRNG :: "int \<Rightarrow> rng" where
  "DeterministicRNG seed =
     (let hash = sha256_digest (utf8 (show_int seed))
      in \<lparr>state = (readUInt32LE hash 0, readUInt32LE hash 4,
                    readUInt32LE hash 8, readUInt32LE hash 12),
          spare = None,
          draws = 0\<rparr>)"

text \<open>
  \<open>next()\<close>. The state words are unsigned 32-bit values held as numbers. \<open>a * 5\<close> is an
  exact integer; \<open><<\<close> and \<open>|\<close> work on its low 32 bits and give a signed 32-bit value;
  \<open>>>>\<close> gives an unsigned one; the product with 9 is again an exact integer, \<open>>>> 0\<close>
  reduces it modulo \<open>2^32\<close>, and the quotient by \<open>2^32\<close> is exact.
\<close>

definition rng_next :: "rng \<Rightarrow> jsnum \<times> rng" where
  "rng_next g =
     (case state g of (a, b, c, d) \<Rightarrow>
        (let t = (push_bit 9 b :: u32);
             r = uint a * 5;
             r = sint (push_bit 7 (word_of_int r :: u32) OR drop_bit 25 (word_of_int r :: u32)) * 9
         in (Fin (real_of_int (uint (word_of_int r :: u32)) / 4294967296),
             g\<lparr>state := (a, b, c, d), draws := draws g + 1\<rparr>)))"

definition rng_range :: "rng \<Rightarrow> jsnum \<Rightarrow> jsnum \<Rightarrow> jsnum \<times> rng" where
  "rng_range g lo hi = (case rng_next g of (u, g') \<Rightarrow> (lo + u * (hi - lo), g'))"

definition rng_int :: "rng \<Rightarrow> jsnum \<Rightarrow> jsnum \<Rightarrow> jsnum \<times> rng" where
  "rng_int g lo hi = (case rng_range g lo (hi + 1) of (x, g') \<Rightarrow> (Math_floor x, g'))"

definition rng_boolean :: "rng \<Rightarrow> jsnum \<Rightarrow> bool \<times> rng" where
  "rng_boolean g probability = (case rng_next g of (u, g') \<Rightarrow> (u < probability, g'))"

definition rng_choice :: "rng \<Rightarrow> 'a list \<Rightarrow> 'a option \<times> rng" where
  "rng_choice g array =
     (case rng_int g 0 (Fin (real (length array)) - 1) of (i, g') \<Rightarrow> (array_at array i, g'))"

definition rng_normal :: "host \<Rightarrow> rng \<Rightarrow> jsnum \<Rightarrow> jsnum \<Rightarrow> jsnum \<times> rng" where
  "rng_normal h g mean stdDev =
     (case spare g of
        Some v \<Rightarrow> (v * stdDev + mean, g\<lparr>spare := None\<rparr>)
      | None \<Rightarrow>
          (case rng_next g of (u1, g1) \<Rightarrow>
           case rng_next g1 of (u2, g2) \<Rightarrow>
             (let mag = Math_sqrt h (- 2 * Math_log h u1)
              in (mag * Math_cos h (2 * Math_PI h * u2) * stdDev + mean,
                  g2\<lparr>spare := Some (mag * Math_sin h (2 * Math_PI h * u2))\<rparr>))))"

subsection \<open>Hashing and numeric utilities\<close>

definition hashTelemetryRow ::
  "host \<Rightarrow> string \<Rightarrow> string \<Rightarrow> jsnum \<Rightarrow> jsnum \<Rightarrow> jsnum \<Rightarrow> jsnum \<Rightarrow> string \<Rightarrow> string" where
  "hashTelemetryRow h siteId tsUtc acEnergyKwh acPowerKw poaIrrWm2 tempC status =
     (let data = join ''|''
            [siteId, tsUtc, toFixed h acEnergyKwh 3, toFixed h acPowerKw 3,
             toFixed h poaIrrWm2 1, toFixed h tempC 1, status]
      in sha256 data)"

text \<open>
  \<open>roundToDecimals\<close> is called with the literals 1 and 3 only; \<open>Math.pow(10, decimals)\<close>
  is then the exact power of ten.
\<close>

definition roundToDecimals :: "jsnum \<Rightarrow> nat \<Rightarrow> jsnum" where
  "roundToDecimals v decimals =
     (let factor = Fin (10 ^ decimals)
      in Math_round (v * factor) / factor)"

definition clamp :: "jsnum \<Rightarrow> jsnum \<Rightarrow> jsnum \<Rightarrow> jsnum" where
  "clamp v lo hi = Math_min (Math_max v lo) hi"

subsection \<open>The Merkle tree\<close>

text \<open>
  One pass of the inner \<open>for\<close> loop of \<open>buildMerkleRoot\<close>: adjacent entries are
  concatenated and hashed. \<open>currentLevel[i + 1] || left\<close> takes \<open>left\<close> when the right
  entry is missing (an odd level) and also when it is the empty string, which is falsy.
\<close>

fun nextLevel :: "string list \<Rightarrow> string list" where
  "nextLevel [] = []"
| "nextLevel [left] = [sha256 (left @ left)]"
| "nextLevel (left # right # rest) =
     sha256 (left @ (if right = [] then left else right)) # nextLevel rest"

text \<open>The \<open>while (currentLevel.length > 1)\<close> loop; it returns the last level.\<close>

function merkleLevels :: "string list \<Rightarrow> string list" where
  "merkleLevels currentLevel =
     (if length currentLevel > 1 then merkleLevels (nextLevel currentLevel) else currentLevel)"
  by pat_completeness auto
termination
proof (relation "measure length")
  show "wf (measure length)"
    by simp
next
  fix currentLevel :: "string list"
  assume long: "1 < length currentLevel"
  have "length (nextLevel xs) = (length xs + 1) div 2" for xs
    by (induction xs rule: nextLevel.induct) simp_all
  with long show "(nextLevel currentLevel, currentLevel) \<in> measure length"
    by simp
qed

declare merkleLevels.simps [simp del]

definition buildMerkleRoot :: "string list \<Rightarrow> string" where
  "buildMerkleRoot hashes =
     (if length hashes = 0 then sha256 ''''
      else if length hashes = 1 then hashes ! 0
      else merkleLevels (sort hashes) ! 0)"

section \<open>\<open>src/config/index.ts\<close>\<close>

text \<open>
  \<open>siteConfigSchema\<close>. The window's fields are \<open>start\<close>, \<open>end\<close> and \<open>days\<close> in the
  source.
\<close>

record OutageWindow =
  w_start :: string
  w_end :: string
  w_days :: string

text \<open>
  A site object has the properties of the schema. \<open>other_props\<close> holds the numeric
  properties that an object passed \<open>as SiteConfig\<close> carries beyond them: a row of the
  sites table has \<open>capacityAcKw\<close> and \<open>capacityDcKw\<close>. \<open>siteConfigSchema.parse\<close> strips
  every key that the schema does not name, so what it returns has none.
\<close>

record SiteConfig =
  siteId :: string
  name :: string
  country :: string
  timezone :: string
  lat :: jsnum
  lon :: jsnum
  capacityDcKW :: jsnum
  capacityAcKW :: jsnum
  tiltDeg :: jsnum
  azimuthDeg :: jsnum
  modules :: jsnum
  inverterEff :: jsnum
  degradationPctPerYear :: jsnum
  baselineKgPerKwh :: jsnum
  outageWindows :: "OutageWindow list"
  curtailmentPct :: jsnum
  other_props :: "string \<rightharpoonup> jsnum"

text \<open>
  The objects that \<open>siteConfigSchema.parse\<close> returns: \<open>z.number()\<close> refuses \<open>NaN\<close>, and
  no key outside the schema is left.
\<close>

definition siteConfigSchema :: "SiteConfig \<Rightarrow> bool" where
  "siteConfigSchema site \<longleftrightarrow>
     other_props site = Map.empty \<and>
     NaN \<notin> set [lat site, lon site, capacityDcKW site, capacityAcKW site, tiltDeg site,
       azimuthDeg site, modules site, inverterEff site, degradationPctPerYear site,
       baselineKgPerKwh site, curtailmentPct site]"

text \<open>The read \<open>this.site.capacityAcKw\<close>, of a property that the schema does not have.\<close>

definition site_capacityAcKw :: "SiteConfig \<Rightarrow> jsnum option" where
  "site_capacityAcKw site = other_props site ''capacityAcKw''"

section \<open>\<open>src/model/pv-simulation.ts\<close>\<close>

text \<open>
  A \<open>Date\<close> is its time value, the milliseconds since the epoch (an invalid date is not
  modelled). The UTC fields are those of ECMAScript 21.4.1.
\<close>

type_synonym Date = int

definition getTime :: "Date \<Rightarrow> jsnum" where
  "getTime date = Fin (of_int date)"

definition getUTCHours :: "Date \<Rightarrow> jsnum" where
  "getUTCHours date = Fin (of_int ((date div 3600000) mod 24))"

definition getUTCMinutes :: "Date \<Rightarrow> jsnum" where
  "getUTCMinutes date = Fin (of_int ((date div 60000) mod 60))"

definition getUTCDay :: "Date \<Rightarrow> nat" where
  "getUTCDay date = nat ((date div 86400000 + 4) mod 7)"

record TelemetryData =
  tsUtc :: string
  poaIrrWm2 :: jsnum
  tempC :: jsnum
  windMps :: jsnum
  acPowerKw :: jsnum
  acEnergyKwh :: jsnum
  status :: string

text \<open>
  \<open>Math.floor((date.getTime() - new Date(date.getFullYear(), 0, 1).getTime()) /
  (24 * 60 * 60 * 1000))\<close>, which three methods compute, and
  \<open>date.getUTCHours() + date.getUTCMinutes() / 60\<close>, which five compute.
\<close>

definition daysSinceYearStart :: "host \<Rightarrow> Date \<Rightarrow> jsnum" where
  "daysSinceYearStart h date =
     Math_floor ((getTime date - getTime (Date_localYearStart h date)) / (24 * 60 * 60 * 1000))"

definition utcHoursOf :: "Date \<Rightarrow> jsnum" where
  "utcHoursOf date = getUTCHours date + getUTCMinutes date / 60"

text \<open>
  \<open>calculateIrradiance\<close>, up to its test of the elevation: the day of the year, the
  elevation and the azimuth of the sun.
\<close>

definition solarPosition :: "host \<Rightarrow> SiteConfig \<Rightarrow> Date \<Rightarrow> jsnum \<times> jsnum \<times> jsnum" where
  "solarPosition h site date =
     (let latRad = (lat site * Math_PI h) / 180;
          lonRad = (lon site * Math_PI h) / 180;
          dayOfYear = daysSinceYearStart h date + 1;
          declination =
            23.45 * Math_sin h ((284 + dayOfYear) * Math_PI h / 180) * Math_PI h / 180;
          utcHours = utcHoursOf date;
          hourAngle = (utcHours - 12) * 15 * Math_PI h / 180;
          elevation = Math_asin h
            (Math_sin h latRad * Math_sin h declination +
             Math_cos h latRad * Math_cos h declination * Math_cos h hourAngle);
          azimuth = Math_atan2 h
            (Math_sin h hourAngle)
            (Math_cos h hourAngle * Math_sin h latRad - Math_tan h declination * Math_cos h latRad)
      in (dayOfYear, elevation, azimuth))"

definition solarElevation :: "host \<Rightarrow> SiteConfig \<Rightarrow> Date \<Rightarrow> jsnum" where
  "solarElevation h site date = fst (snd (solarPosition h site date))"

definition calculateCloudVariation :: "host \<Rightarrow> Date \<Rightarrow> rng \<Rightarrow> jsnum \<times> rng" where
  "calculateCloudVariation h date g =
     (let timeOfDay = utcHoursOf date;
          dayOfYear = daysSinceYearStart h date;
          seasonalVariation = 0.8 + 0.4 * Math_sin h (2 * Math_PI h * dayOfYear / 365);
          dailyVariation = 0.7 + 0.6 * Math_sin h (Math_PI h * (timeOfDay - 6) / 12);
          (randomFactor, g') = rng_range g 0.3 1.2
      in (clamp (seasonalVariation * dailyVariation * randomFactor) 0.1 1.0, g'))"

definition calculateIrradiance :: "host \<Rightarrow> SiteConfig \<Rightarrow> Date \<Rightarrow> rng \<Rightarrow> jsnum \<times> rng" where
  "calculateIrradiance h site date g =
     (case solarPosition h site date of (dayOfYear, elevation, azimuth) \<Rightarrow>
        if elevation \<le> 0 then (0, g)
        else
          (let tiltRad = (tiltDeg site * Math_PI h) / 180;
               azimuthRad = (azimuthDeg site * Math_PI h) / 180;
               cosIncidence = Math_sin h elevation * Math_cos h tiltRad +
                 Math_cos h elevation * Math_sin h tiltRad * Math_cos h (azimuth - azimuthRad);
               solarConstant = 1367;
               earthSunDistance = 1 + 0.033 * Math_cos h (2 * Math_PI h * dayOfYear / 365);
               extraterrestrialIrradiance =
                 solarConstant * earthSunDistance * Math_sin h elevation;
               airMass = 1 / Math_sin h elevation;
               atmosphericTransmittance = Math_pow h 0.7 (Math_pow h airMass 0.678);
               dni = extraterrestrialIrradiance * atmosphericTransmittance;
               diffuseFraction = 0.1 + 0.3 * Math_exp h (- dni / 200);
               diffuseIrradiance = dni * diffuseFraction;
               globalHorizontalIrradiance = dni * Math_sin h elevation + diffuseIrradiance;
               poaIrr = dni * Math_max 0 cosIncidence +
                 diffuseIrradiance * (1 + Math_cos h tiltRad) / 2;
               (cloudVariation, g') = calculateCloudVariation h date g;
               finalPoaIrr = Math_max 0 (poaIrr * cloudVariation)
           in (roundToDecimals finalPoaIrr 1, g')))"

definition calculateTemperature :: "host \<Rightarrow> SiteConfig \<Rightarrow> Date \<Rightarrow> rng \<Rightarrow> jsnum \<times> rng" where
  "calculateTemperature h site date g =
     (let dayOfYear = daysSinceYearStart h date;
          timeOfDay = utcHoursOf date;
          baseTemp = 25 - (Math_abs (lat site) - 30) * 0.5;
          seasonalVariation = 10 * Math_sin h (2 * Math_PI h * (dayOfYear - 80) / 365);
          dailyVariation = 8 * Math_sin h (Math_PI h * (timeOfDay - 6) / 12);
          (randomVariation, g') = rng_normal h g 0 2;
          t = baseTemp + seasonalVariation + dailyVariation + randomVariation
      in (roundToDecimals (clamp t (- 10) 50) 1, g'))"

definition calculateWindSpeed :: "host \<Rightarrow> Date \<Rightarrow> rng \<Rightarrow> jsnum \<times> rng" where
  "calculateWindSpeed h date g =
     (let timeOfDay = utcHoursOf date;
          dailyVariation = 2 + 3 * Math_sin h (Math_PI h * (timeOfDay - 6) / 12);
          (randomVariation, g') = rng_range g 0 5;
          w = Math_max 0 (dailyVariation + randomVariation)
      in (roundToDecimals w 1, g'))"

definition calculateDcPower :: "SiteConfig \<Rightarrow> jsnum \<Rightarrow> jsnum \<Rightarrow> jsnum" where
  "calculateDcPower site irr temp =
     (let moduleEfficiency = 0.20;
          tempCoeff = - 0.004;
          tempLoss = tempCoeff * (temp - 25);
          moduleArea = modules site * 2;
          dcPowerKw = (irr * moduleArea * moduleEfficiency * (1 + tempLoss)) / 1000
      in roundToDecimals (Math_max 0 dcPowerKw) 3)"

text \<open>
  \<open>calculateAcPower\<close> reads \<open>this.site.capacityAcKw\<close>; \<open>Math.min\<close> applies
  \<open>ToNumber\<close> to it, and \<open>undefined\<close> becomes \<open>NaN\<close>.
\<close>

definition calculateAcPower :: "SiteConfig \<Rightarrow> jsnum \<Rightarrow> jsnum" where
  "calculateAcPower site dcPowerKw =
     (let acPower = dcPowerKw * inverterEff site;
          limitedAcPowerKw = Math_min acPower (ToNumber (site_capacityAcKw site))
      in roundToDecimals limitedAcPowerKw 3)"

definition calculateEnergy :: "jsnum \<Rightarrow> jsnum \<Rightarrow> jsnum" where
  "calculateEnergy acPower intervalMinutes =
     (let intervalHours = intervalMinutes / 60;
          energyKwh = acPower * intervalHours
      in roundToDecimals energyKwh 3)"

text \<open>
  \<open>parseTime\<close>: \<open>timeStr.split(':').map(Number)\<close>, of which the first two entries are
  taken; a missing entry is \<open>undefined\<close>.
\<close>

definition parseTime :: "host \<Rightarrow> string \<Rightarrow> jsnum" where
  "parseTime h timeStr =
     (let parts = map (Number_of_string h) (split_at CHR '':'' timeStr);
          hours = ToNumber (array_get parts 0);
          minutes = ToNumber (array_get parts 1)
      in hours + minutes / 60)"

definition dayNames :: "string list" where
  "dayNames = [''SUN'', ''MON'', ''TUE'', ''WED'', ''THU'', ''FRI'', ''SAT'']"

text \<open>\<open>getUTCDay()\<close> is below 7, so \<open>dayNames[dayOfWeek]\<close> is a name.\<close>

definition matchesDayPattern :: "nat \<Rightarrow> string \<Rightarrow> bool" where
  "matchesDayPattern dayOfWeek pattern =
     (let currentDay = dayNames ! dayOfWeek
      in String_includes pattern currentDay \<or> pattern = ''ALL'')"

text \<open>The loop of \<open>checkOutage\<close> over the windows, which returns at the first match.\<close>

fun outageIn :: "host \<Rightarrow> jsnum \<Rightarrow> nat \<Rightarrow> OutageWindow list \<Rightarrow> bool" where
  "outageIn h timeOfDay dayOfWeek [] = False"
| "outageIn h timeOfDay dayOfWeek (window # rest) =
     (let startHour = parseTime h (w_start window);
          endHour = parseTime h (w_end window)
      in if startHour \<le> timeOfDay \<and> timeOfDay \<le> endHour
         then (if matchesDayPattern dayOfWeek (w_days window) then True
               else outageIn h timeOfDay dayOfWeek rest)
         else outageIn h timeOfDay dayOfWeek rest)"

definition checkOutage :: "host \<Rightarrow> SiteConfig \<Rightarrow> Date \<Rightarrow> bool" where
  "checkOutage h site date =
     (let timeOfDay = utcHoursOf date;
          dayOfWeek = getUTCDay date
      in outageIn h timeOfDay dayOfWeek (outageWindows site))"

definition checkCurtailment :: "SiteConfig \<Rightarrow> rng \<Rightarrow> bool \<times> rng" where
  "checkCurtailment site g = (case rng_next g of (u, g') \<Rightarrow> (u < curtailmentPct site, g'))"

text \<open>
  \<open>generateTelemetry\<close>. \<open>!isOutage && this.checkCurtailment()\<close> calls
  \<open>checkCurtailment\<close> only when there is no outage.
\<close>

definition generateTelemetry ::
  "host \<Rightarrow> SiteConfig \<Rightarrow> Date \<Rightarrow> jsnum \<Rightarrow> rng \<Rightarrow> TelemetryData \<times> rng" where
  "generateTelemetry h site date intervalMinutes g =
     (let (irr, g1) = calculateIrradiance h site date g;
          (temp, g2) = calculateTemperature h site date g1;
          (wind, g3) = calculateWindSpeed h date g2;
          isOutage = checkOutage h site date;
          (isCurtailed, g4) = (if \<not> isOutage then checkCurtailment site g3 else (False, g3));
          (acPower, st) =
            (if isOutage then (0, ''OUTAGE'')
             else if isCurtailed then (0, ''CURTAILED'')
             else if 0 < irr
               then (calculateAcPower site (calculateDcPower site irr temp), ''OK'')
               else (0, ''OK''));
          acEnergy = calculateEnergy acPower intervalMinutes
      in (\<lparr>tsUtc = Date_toISOString h date, poaIrrWm2 = irr, tempC = temp, windMps = wind,
           acPowerKw = acPower, acEnergyKwh = acEnergy, status = st\<rparr>, g4))"

section \<open>\<open>src/anchor/registry-adapter-client.ts\<close>\<close>

record AnchorRequest =
  topic :: string
  hash :: string
  uri :: "string option"

record AnchorResponse =
  adapterTxId :: string
  txHash :: string
  blockNumber :: jsnum
  success :: bool
  error :: "string option"

text \<open>\<open>AnchorStatus\<close>; its \<open>error\<close> field is \<open>status_error\<close> here.\<close>

record AnchorStatus =
  ok :: bool
  status_error :: "string option"

text \<open>
  What an HTTP call of the client comes to: the promise resolves with a status and the
  three fields read from \<open>response.data\<close>; or it rejects with an axios error, of which
  \<open>error.response?.data?.error\<close> (when there is one) and \<open>error.message\<close> are read; or
  something else is thrown inside the \<open>try\<close>, an \<open>Error\<close> with its message or a value
  that is not an \<open>Error\<close>.
\<close>

datatype http_outcome =
  Resolved int string string jsnum
| AxiosError "string option" string
| Thrown "string option"

text \<open>
  What the client does to the world, in order. The \<open>x-app-key\<close> header and the HMAC
  signature that the request interceptor adds do not change what a call returns and are
  left out.
\<close>

datatype event =
  HttpPost string AnchorRequest
| HttpGet string
| Sleep nat
| ConsoleLog string
| ConsoleError string

text \<open>
  The world: the events so far, and the service, which answers the \<open>n\<close>-th HTTP call of
  the run with \<open>service n\<close>.
\<close>

record world =
  service :: "nat \<Rightarrow> http_outcome"
  calls :: nat
  trace :: "event list"

definition emit :: "event \<Rightarrow> world \<Rightarrow> world" where
  "emit e w = w\<lparr>trace := trace w @ [e]\<rparr>"

definition http :: "event \<Rightarrow> world \<Rightarrow> http_outcome \<times> world" where
  "http e w = (service w (calls w), emit e (w\<lparr>calls := calls w + 1\<rparr>))"

text \<open>The client object: \<open>this.enabled\<close>, from \<open>config.anchorEnabled\<close>.\<close>

record RegistryAdapterClient =
  enabled :: bool

text \<open>\<open>error.response?.data?.error || error.message\<close>: an empty string is falsy.\<close>

definition axios_message :: "string option \<Rightarrow> string \<Rightarrow> string" where
  "axios_message response_error message =
     (case response_error of
        Some e \<Rightarrow> if e \<noteq> [] then e else message
      | None \<Rightarrow> message)"

text \<open>\<open>error instanceof Error ? error.message : 'Unknown error'\<close>\<close>

definition error_message :: "string option \<Rightarrow> string" where
  "error_message thrown = (case thrown of Some m \<Rightarrow> m | None \<Rightarrow> ''Unknown error'')"

definition failure :: "string option \<Rightarrow> AnchorResponse" where
  "failure e = \<lparr>adapterTxId = '''', txHash = '''', blockNumber = 0, success = False, error = e\<rparr>"

definition anchorDigest ::
  "RegistryAdapterClient \<Rightarrow> string \<Rightarrow> string \<Rightarrow> string \<Rightarrow> string option \<Rightarrow> world
     \<Rightarrow> AnchorResponse \<times> world" where
  "anchorDigest client site day merkleRoot u w =
     (if \<not> enabled client then (failure (Some ''Anchoring is disabled''), w)
      else
        (let request = \<lparr>topic = ''IOT:'' @ site @ '':'' @ day,
                          hash = (if startsWith merkleRoot ''0x'' then merkleRoot
                                  else ''0x'' @ merkleRoot),
                          uri = u\<rparr>
         in case http (HttpPost ''/v1/anchor'' request) w of
              (Resolved code txId tx block, w1) \<Rightarrow>
                (\<lparr>adapterTxId = txId, txHash = tx, blockNumber = block, success = True,
                  error = None\<rparr>, w1)
            | (AxiosError response_error message, w1) \<Rightarrow>
                (failure (Some (axios_message response_error message)),
                 emit (ConsoleError ''Failed to anchor digest:'') w1)
            | (Thrown thrown, w1) \<Rightarrow>
                (failure (Some (error_message thrown)),
                 emit (ConsoleError ''Failed to anchor digest:'') w1)))"

definition checkAnchorStatus :: "RegistryAdapterClient \<Rightarrow> world \<Rightarrow> AnchorStatus \<times> world" where
  "checkAnchorStatus client w =
     (if \<not> enabled client
      then (\<lparr>ok = False, status_error = Some ''Anchoring is disabled''\<rparr>, w)
      else
        (case http (HttpGet ''/health'') w of
           (Resolved code txId tx block, w1) \<Rightarrow>
             (\<lparr>ok = (code = 200), status_error = None\<rparr>, w1)
         | (AxiosError response_error message, w1) \<Rightarrow>
             (\<lparr>ok = False, status_error = Some (axios_message response_error message)\<rparr>,
              emit (ConsoleError ''Failed to check anchor status:'') w1)
         | (Thrown thrown, w1) \<Rightarrow>
             (\<lparr>ok = False, status_error = Some (error_message thrown)\<rparr>,
              emit (ConsoleError ''Failed to check anchor status:'') w1)))"

text \<open>
  The pause of \<open>anchorDigestWithRetry\<close> after a failed attempt that is not the last:
  \<open>Math.pow(2, attempt) * 1000\<close> milliseconds, logged and slept.
\<close>

definition backoff :: "nat \<Rightarrow> nat \<Rightarrow> world \<Rightarrow> world" where
  "backoff attempt maxRetries w =
     (if attempt < maxRetries
      then (let delay = 2 ^ attempt * 1000
            in emit (Sleep delay)
                 (emit (ConsoleLog (''Anchor attempt '' @ show_nat attempt @
                    '' failed, retrying in '' @ show_nat delay @ ''ms...'')) w))
      else w)"

text \<open>
  The \<open>for\<close> loop of \<open>anchorDigestWithRetry\<close>, from \<open>attempt\<close> on. \<open>anchorDigest\<close>
  catches whatever its HTTP call throws, and \<open>sleep\<close> and \<open>console.log\<close> do not throw, so
  the \<open>catch\<close> of the loop is never entered. \<open>maxRetries\<close> is a natural number: the
  callers leave it at its default, 3. In the template literal an \<open>undefined\<close>
  \<open>lastError\<close> reads \<open>undefined\<close>.
\<close>

function retryFrom ::
  "RegistryAdapterClient \<Rightarrow> string \<Rightarrow> string \<Rightarrow> string \<Rightarrow> string option \<Rightarrow> nat
     \<Rightarrow> nat \<Rightarrow> string option \<Rightarrow> world \<Rightarrow> AnchorResponse \<times> world" where
  "retryFrom client site day merkleRoot u maxRetries attempt lastError w =
     (if attempt \<le> maxRetries
      then (case anchorDigest client site day merkleRoot u w of
              (result, w1) \<Rightarrow>
                if success result then (result, w1)
                else retryFrom client site day merkleRoot u maxRetries (attempt + 1)
                       (error result) (backoff attempt maxRetries w1))
      else (failure (Some (''Failed after '' @ show_nat maxRetries @ '' attempts: '' @
              (case lastError of Some e \<Rightarrow> e | None \<Rightarrow> ''undefined''))), w))"
  by pat_completeness auto
termination
  by (relation "measure (\<lambda>(client, site, day, merkleRoot, u, maxRetries, attempt, lastError, w).
        maxRetries + 1 - attempt)") auto

declare retryFrom.simps [simp del]

definition anchorDigestWithRetry ::
  "RegistryAdapterClient \<Rightarrow> string \<Rightarrow> string \<Rightarrow> string \<Rightarrow> string option \<Rightarrow> nat \<Rightarrow> world
     \<Rightarrow> AnchorResponse \<times> world" where
  "anchorDigestWithRetry client site day merkleRoot u maxRetries w =
     retryFrom client site day merkleRoot u maxRetries 1 None w"

section \<open>Programs that use the classes\<close>

subsection \<open>Calls on generator objects\<close>

text \<open>The values of \<open>n\<close> successive calls of \<open>next()\<close> on one object.\<close>

fun next_stream :: "nat \<Rightarrow> rng \<Rightarrow> jsnum list" where
  "next_stream 0 g = []"
| "next_stream (Suc n) g = (case rng_next g of (u, g') \<Rightarrow> u # next_stream n g')"

datatype 'a call =
  NextC
| RangeC jsnum jsnum
| IntC jsnum jsnum
| BooleanC jsnum
| ChoiceC "'a list"
| NormalC jsnum jsnum

datatype 'a returned = NumV jsnum | BoolV bool | ElemV "'a option"

fun invoke :: "host \<Rightarrow> 'a call \<Rightarrow> rng \<Rightarrow> 'a returned \<times> rng" where
  "invoke h NextC g = (case rng_next g of (v, g') \<Rightarrow> (NumV v, g'))"
| "invoke h (RangeC lo hi) g = (case rng_range g lo hi of (v, g') \<Rightarrow> (NumV v, g'))"
| "invoke h (IntC lo hi) g = (case rng_int g lo hi of (v, g') \<Rightarrow> (NumV v, g'))"
| "invoke h (BooleanC p) g = (case rng_boolean g p of (v, g') \<Rightarrow> (BoolV v, g'))"
| "invoke h (ChoiceC xs) g = (case rng_choice g xs of (v, g') \<Rightarrow> (ElemV v, g'))"
| "invoke h (NormalC mean stdDev) g =
     (case rng_normal h g mean stdDev of (v, g') \<Rightarrow> (NumV v, g'))"

text \<open>The object after a sequence of calls, and the outputs of the calls.\<close>

fun after_calls :: "host \<Rightarrow> 'a call list \<Rightarrow> rng \<Rightarrow> rng" where
  "after_calls h [] g = g"
| "after_calls h (c # cs) g = after_calls h cs (snd (invoke h c g))"


fun run_calls :: "host \<Rightarrow> 'a call list \<Rightarrow> rng \<Rightarrow> 'a returned list" where
  "run_calls h [] g = []"
| "run_calls h (c # cs) g = (case invoke h c g of (v, g') \<Rightarrow> v # run_calls h cs g')"

text \<open>
  A program holds several generator objects, by reference, and calls them in any order.
  The store maps a reference to its object; a step is a call on a reference, and a call
  on a reference that holds no object is skipped.
\<close>

fun exec :: "host \<Rightarrow> (nat \<times> 'a call) list \<Rightarrow> (nat \<rightharpoonup> rng) \<Rightarrow> (nat \<times> 'a returned) list" where
  "exec h [] store = []"
| "exec h ((r, c) # steps) store =
     (case store r of
        None \<Rightarrow> exec h steps store
      | Some g \<Rightarrow> (case invoke h c g of (v, g') \<Rightarrow> (r, v) # exec h steps (store(r \<mapsto> g'))))"

text \<open>What a list of steps, or of outputs, holds for one reference.\<close>

definition on_ref :: "nat \<Rightarrow> (nat \<times> 'b) list \<Rightarrow> 'b list" where
  "on_ref r xs = map snd (filter (\<lambda>x. fst x = r) xs)"

subsection \<open>The digest generators' guard\<close>

text \<open>
  \<open>generateDigestArtifacts\<close> reads the rows of a day and throws when there are none,
  before it calls \<open>buildMerkleRoot\<close> on the row hashes (\<open>generateDailyDigest\<close> has the
  same guard). This is that part of it, on the row hashes: \<open>Inl\<close> is the message of
  the \<open>Error\<close> thrown.
\<close>

definition digestMerkleRoot :: "string \<Rightarrow> string \<Rightarrow> string list \<Rightarrow> string + string" where
  "digestMerkleRoot site dayUtc rowHashes =
     (if length rowHashes = 0
      then Inl (''No telemetry data found for site '' @ site @ '' on '' @ dayUtc)
      else Inr (buildMerkleRoot rowHashes))"

subsection \<open>The spec's equality of numeric fields\<close>

text \<open>
  The spec calls two values numerically equal at a precision of \<open>f\<close> decimals. Read as:
  both round to the same multiple of \<open>10^-f\<close> (a tie away from zero, as \<open>toFixed\<close> rounds
  a magnitude); values that are not finite are equal when they are the same.
\<close>

definition rounded_at :: "nat \<Rightarrow> real \<Rightarrow> int" where
  "rounded_at f r = (if r < 0 then - \<lfloor>\<bar>r\<bar> * 10 ^ f + 1 / 2\<rfloor> else \<lfloor>\<bar>r\<bar> * 10 ^ f + 1 / 2\<rfloor>)"

definition equal_at_precision :: "nat \<Rightarrow> jsnum \<Rightarrow> jsnum \<Rightarrow> bool" where
  "equal_at_precision f x y =
     (case (x, y) of
        (Fin a, Fin b) \<Rightarrow> rounded_at f a = rounded_at f b
      | _ \<Rightarrow> x = y)"

text \<open>
  The same, and moreover both values negative or neither, and both below \<open>10^21\<close> in
  magnitude unless they are the same value.
\<close>

definition same_fixed :: "nat \<Rightarrow> jsnum \<Rightarrow> jsnum \<Rightarrow> bool" where
  "same_fixed f x y =
     (x = y \<or>
      (case (x, y) of
         (Fin a, Fin b) \<Rightarrow>
           \<bar>a\<bar> < 10 ^ 21 \<and> \<bar>b\<bar> < 10 ^ 21 \<and> (a < 0) = (b < 0) \<and> rounded_at f a = rounded_at f b
       | _ \<Rightarrow> False))"

subsection \<open>Example inputs\<close>

text \<open>
  A host for the examples: the real functions on finite arguments, a machine on UTC in
  1970 (the local year starts at time 0), and \<open>Number\<close> on strings of decimal digits.
\<close>

fun on_finite :: "(real \<Rightarrow> real) \<Rightarrow> jsnum \<Rightarrow> jsnum" where
  "on_finite f (Fin x) = Fin (f x)"
| "on_finite f v = NaN"

fun digits_value :: "nat \<Rightarrow> string \<Rightarrow> nat option" where
  "digits_value acc [] = Some acc"
| "digits_value acc (c # cs) =
     (if CHR ''0'' \<le> c \<and> c \<le> CHR ''9''
      then digits_value (10 * acc + (of_char c - 48)) cs else None)"

definition example_host :: host where
  "example_host =
     \<lparr>Math_PI = Fin pi,
      Math_sin = on_finite sin,
      Math_cos = on_finite cos,
      Math_tan = on_finite tan,
      Math_asin = (\<lambda>v. case v of Fin x \<Rightarrow> if \<bar>x\<bar> \<le> 1 then Fin (arcsin x) else NaN | _ \<Rightarrow> NaN),
      Math_atan2 = (\<lambda>y x. case (y, x) of
         (Fin b, Fin a) \<Rightarrow>
           Fin (if 0 < a then arctan (b / a)
                else if a < 0 then (if 0 \<le> b then arctan (b / a) + pi else arctan (b / a) - pi)
                else if 0 < b then pi / 2 else if b < 0 then - pi / 2 else 0)
       | _ \<Rightarrow> NaN),
      Math_exp = on_finite exp,
      Math_log = (\<lambda>v. case v of
         Fin x \<Rightarrow> if 0 < x then Fin (ln x) else if x = 0 then NegInfinity else NaN
       | Infinity \<Rightarrow> Infinity | _ \<Rightarrow> NaN),
      Math_sqrt = (\<lambda>v. case v of
         Fin x \<Rightarrow> if 0 \<le> x then Fin (sqrt x) else NaN
       | Infinity \<Rightarrow> Infinity | _ \<Rightarrow> NaN),
      Math_pow = (\<lambda>x y. case (x, y) of
         (Fin a, Fin b) \<Rightarrow> if 0 < a then Fin (a powr b) else NaN
       | _ \<Rightarrow> NaN),
      Number_of_string = (\<lambda>s. case digits_value 0 s of Some n \<Rightarrow> Fin (real n) | None \<Rightarrow> NaN),
      Number_toString = (\<lambda>v. ''''),
      Date_localYearStart = (\<lambda>t. 0),
      Date_toISOString = (\<lambda>t. '''')\<rparr>"

text \<open>
  The site of \<open>src/test/pv-simulation.test.ts\<close>, and the same site moved to the equator,
  with an outage window on Mondays and Thursdays and a curtailment probability of 1.
\<close>

definition testSite :: SiteConfig where
  "testSite =
     \<lparr>siteId = ''TEST001'', name = ''Test Solar Farm'', country = ''US'',
      timezone = ''America/Los_Angeles'', lat = 34.05, lon = - 118.24,
      capacityDcKW = 1000, capacityAcKW = 800, tiltDeg = 30, azimuthDeg = 180,
      modules = 2000, inverterEff = 0.95, degradationPctPerYear = 0.5,
      baselineKgPerKwh = 0.386, outageWindows = [], curtailmentPct = 0.0,
      other_props = Map.empty\<rparr>"

definition equatorSite :: SiteConfig where
  "equatorSite =
     testSite\<lparr>lat := 0,
       outageWindows := [\<lparr>w_start = ''00:00'', w_end = ''06:30'', w_days = ''MON,THU''\<rparr>],
       curtailmentPct := 1\<rparr>"

text \<open>The pauses in a trace, in order.\<close>

fun sleeps :: "event list \<Rightarrow> nat list" where
  "sleeps [] = []"
| "sleeps (Sleep ms # es) = ms # sleeps es"
| "sleeps (e # es) = sleeps es"

text \<open>
  A service that times out twice and then answers, one that is down, and the world before
  the first call.
\<close>

definition flaky_service :: "nat \<Rightarrow> http_outcome" where
  "flaky_service n =
     (if n < 2 then AxiosError None ''timeout of 30000ms exceeded''
      else Resolved 200 ''adapter-7'' ''0xfeed'' 12)"

definition down_service :: "nat \<Rightarrow> http_outcome" where
  "down_service n =
     AxiosError (Some ''registry unavailable'') ''Request failed with status code 503''"

definition start :: "(nat \<Rightarrow> http_outcome) \<Rightarrow> world" where
  "start s = \<lparr>service = s, calls = 0, trace = []\<rparr>"

section \<open>Properties\<close>

subsection \<open>Numbers\<close>

lemma numeral_jsnum: "(numeral k :: jsnum) = Fin (numeral k)"
  by (induction k) (simp_all only: numeral.simps one_jsnum_def plus_jsnum.simps)

lemma power_jsnum: "Fin x ^ n = Fin (x ^ n)"
  by (induction n) (simp_all add: one_jsnum_def)

lemmas jsnum_eval = numeral_jsnum power_jsnum zero_jsnum_def one_jsnum_def minus_jsnum_def

lemma roundToDecimals_NaN: "roundToDecimals NaN d = NaN"
  by (simp add: roundToDecimals_def)

lemma Math_min_NaN: "Math_min a NaN = NaN"
  by (simp add: Math_min_def)

text \<open>
  With no power the energy of a finite interval is 0; of an interval that is not a finite
  number of minutes it is \<open>NaN\<close>.
\<close>

lemma calculateEnergy_zero: "calculateEnergy 0 (Fin m) = 0"
  by (simp add: calculateEnergy_def roundToDecimals_def jsnum_eval)

lemma calculateEnergy_zero_not_finite:
  "calculateEnergy 0 NaN = NaN \<and> calculateEnergy 0 Infinity = NaN
   \<and> calculateEnergy 0 NegInfinity = NaN"
  by (simp add: calculateEnergy_def roundToDecimals_def jsnum_eval)

subsection \<open>Computing digests\<close>

text \<open>
  Equations that let the simplifier run SHA-256 on a literal: the counters step down on
  numerals, and a rotation is reduced to 32 bits as soon as it is computed.
\<close>

lemma schedule_numeral:
  "schedule (numeral n) w =
     schedule (pred_numeral n) ((ssig1 (w ! 1) + w ! 6 + ssig0 (w ! 14) + w ! 15) # w)"
  by (simp add: numeral_eq_Suc)

lemma replicate_numeral_Cons:
  "replicate (numeral n) x = x # replicate (pred_numeral n) x"
  by (simp add: numeral_eq_Suc)

lemma rotr_numeral:
  "rotr n (numeral k) =
     word_of_nat (unat (drop_bit n (numeral k :: u32) OR push_bit (32 - n) (numeral k)))"
  by (simp add: rotr_def)

lemma rotr_zero: "rotr n 0 = 0"
  by (simp add: rotr_def)

lemmas sha256_eval =
  sha256_def sha256_digest_def utf8_def sha256_pad_def be64_def compress_def word_bytes_def
  hex_byte_def hex_digit_def sha256_K_def sha256_H0_def rotr_numeral rotr_zero ssig0_def
  ssig1_def bsig0_def bsig1_def ch_def maj_def schedule_numeral replicate_numeral_Cons

lemma sha256_empty:
  "sha256 '''' = ''e3b0c44298fc1c149afbf4c8996fb92427ae41e4649b934ca495991b7852b855''"
  by (simp add: sha256_eval)

lemma sha256_row_negative:
  "sha256 ''SITE1|2024-01-01T00:00:00Z|-0.000|2.000|100.0|25.0|OK'' =
     ''c4c8cae14a95d99c3f7d14a64bce764e7432957fb87540e779bd6bf4a83c1f8d''"
  by (simp add: sha256_eval)

lemma sha256_row_zero:
  "sha256 ''SITE1|2024-01-01T00:00:00Z|0.000|2.000|100.0|25.0|OK'' =
     ''dd5bea03823fa8089dfee89eab0a339e7535d083847cb1344e40bcaecb72fa80''"
  by (simp add: sha256_eval)

text \<open>The state that the constructor derives from the seed 42.\<close>

lemma seed42_state:
  "state (DeterministicRNG 42) = (3025946483, 2374915594, 3460669608, 2115178705)"
  by (simp add: DeterministicRNG_def readUInt32LE_def show_int_def show_nat.simps sha256_eval)

subsection \<open>The Merkle tree\<close>

lemma length_nextLevel: "length (nextLevel xs) = (length xs + 1) div 2"
  by (induction xs rule: nextLevel.induct) simp_all

text \<open>The loop ends with one entry, so the read \<open>currentLevel[0]\<close> is in range.\<close>

lemma merkleLevels_length: "xs \<noteq> [] \<Longrightarrow> length (merkleLevels xs) = 1"
proof (induction xs rule: merkleLevels.induct)
  case (1 lvl)
  show ?case
  proof (cases "length lvl > 1")
    case True
    then have "nextLevel lvl \<noteq> []"
      using length_nextLevel [of lvl] by (cases "nextLevel lvl") auto
    with 1 True show ?thesis by (subst merkleLevels.simps) simp
  next
    case False
    with 1 have "length lvl = 1" by (cases lvl) auto
    with False show ?thesis by (subst merkleLevels.simps) simp
  qed
qed

lemma sort_mset_cong:
  fixes xs ys :: "string list"
  assumes "mset xs = mset ys"
  shows "sort xs = sort ys"
  using assms by (metis mset_sort sorted_sort properties_for_sort)

text \<open>
  C1, as the code has it. For an empty list \<open>buildMerkleRoot\<close> returns the SHA-256 digest
  of the empty string; the error for a day without telemetry is thrown by the digest
  generators, before they call it.
\<close>

theorem buildMerkleRoot_empty:
  "buildMerkleRoot [] = sha256 ''''
   \<and> digestMerkleRoot site dayUtc [] =
       Inl (''No telemetry data found for site '' @ site @ '' on '' @ dayUtc)"
  by (simp add: buildMerkleRoot_def digestMerkleRoot_def)

text \<open>
  C1, at the empty list and the site and day of an example. The digest generator throws;
  \<open>buildMerkleRoot\<close> itself returns the digest of the empty string.
\<close>

theorem buildMerkleRoot_empty_witness:
  "buildMerkleRoot [] = sha256 ''''
   \<and> digestMerkleRoot ''PRJ001'' ''2024-01-01'' [] =
       Inl ''No telemetry data found for site PRJ001 on 2024-01-01''"
  using buildMerkleRoot_empty [of "''PRJ001''" "''2024-01-01''"] by simp

text \<open>
  C1 as stated fails: called with no hashes, \<open>buildMerkleRoot\<close> does not fail. It
  returns a root, the SHA-256 digest of the empty string.
\<close>

theorem buildMerkleRoot_empty_counterexample:
  "buildMerkleRoot [] = ''e3b0c44298fc1c149afbf4c8996fb92427ae41e4649b934ca495991b7852b855''"
  by (simp add: buildMerkleRoot_def sha256_empty)

text \<open>
  C5. For every non-empty list of hashes and every permutation of it, \<open>buildMerkleRoot\<close>
  returns the same root: the leaves are sorted before they are combined.
\<close>

theorem buildMerkleRoot_permutation_invariant:
  assumes "hashes \<noteq> []" and "mset hashes' = mset hashes"
  shows "buildMerkleRoot hashes' = buildMerkleRoot hashes"
proof -
  have len: "length hashes' = length hashes"
    using assms(2) by (rule mset_eq_length)
  show ?thesis
  proof (cases "length hashes = 1")
    case True
    then obtain h where h: "hashes = [h]"
      by (cases hashes) auto
    with assms(2) have "hashes' = [h]" by simp
    with h show ?thesis by simp
  next
    case False
    with len assms show ?thesis
      by (simp add: buildMerkleRoot_def sort_mset_cong [of hashes' hashes])
  qed
qed

text \<open>
  C5, at the spec's own example: \<open>["h1","h2","h3","h4"]\<close> and its reversal.
\<close>

theorem buildMerkleRoot_permutation_invariant_witness:
  "buildMerkleRoot [''h4'', ''h3'', ''h2'', ''h1''] = buildMerkleRoot [''h1'', ''h2'', ''h3'', ''h4'']"
  by (rule buildMerkleRoot_permutation_invariant) simp_all

subsection \<open>The generator\<close>

lemma rng_next_state: "state (snd (rng_next g)) = state g"
  by (simp add: rng_next_def split: prod.splits)

lemma rng_next_value_cong: "state g = state g' \<Longrightarrow> fst (rng_next g) = fst (rng_next g')"
  by (simp add: rng_next_def split: prod.splits)

lemma next_stream_const: "next_stream n g = replicate n (fst (rng_next g))"
proof (induction n arbitrary: g)
  case 0
  show ?case by simp
next
  case (Suc n)
  have "fst (rng_next (snd (rng_next g))) = fst (rng_next g)"
    by (rule rng_next_value_cong) (rule rng_next_state)
  with Suc [of "snd (rng_next g)"] show ?case
    by (simp add: case_prod_unfold)
qed

text \<open>A value of \<open>next()\<close> is not negative.\<close>

lemma rng_next_nonneg: "\<not> fst (rng_next g) < 0"
proof -
  obtain a b c d where st: "state g = (a, b, c, d)"
    by (cases "state g")
  have "(0 :: real) \<le> real_of_int (uint w) / 4294967296" for w :: u32
  proof -
    have "0 \<le> uint w"
      by (rule uint_nonnegative)
    then have "(0 :: real) \<le> real_of_int (uint w)"
      by (simp only: of_int_0_le_iff)
    then show ?thesis
      by (intro divide_nonneg_pos) simp_all
  qed
  then show ?thesis
    by (simp add: rng_next_def st zero_jsnum_def Let_def not_less)
qed

text \<open>No method changes the state words: the others only call \<open>next()\<close>.\<close>

lemma invoke_state: "state (snd (invoke h c g)) = state g"
proof (cases c)
  case (NormalC mean stdDev)
  then show ?thesis
    by (cases "spare g") (simp_all add: rng_normal_def case_prod_unfold Let_def rng_next_state)
qed (simp_all add: rng_range_def rng_int_def rng_boolean_def rng_choice_def case_prod_unfold
      rng_next_state)

lemma after_calls_state: "state (after_calls h cs g) = state g"
  by (induction cs arbitrary: g) (simp_all add: invoke_state)

text \<open>
  C3. \<open>next()\<close> writes back the state words it read, so the state after a call is
  the state before it, and every call on the object returns the value of the first: the
  stream of \<open>next()\<close> is constant, also after any calls of the other methods.
\<close>

theorem next_leaves_state:
  "state (snd (rng_next g)) = state g
   \<and> next_stream n g = replicate n (fst (rng_next g))
   \<and> fst (rng_next (after_calls h cs g)) = fst (rng_next g)"
  by (simp add: rng_next_state next_stream_const
      rng_next_value_cong [OF after_calls_state [of h cs g]])

text \<open>The value of \<open>next()\<close> in the state of the seed 42.\<close>

lemma next_of_seed42:
  assumes "state g = (3025946483, 2374915594, 3460669608, 2115178705)"
  shows "fst (rng_next g) = Fin (474455506 / 4294967296)"
  using assms by (simp add: rng_next_def)

text \<open>
  C3, at the seed 42: the state stays what the constructor made it, and every call of
  \<open>next()\<close> returns \<open>474455506 / 2^32\<close>, about 0.1104677808, also after a call of
  \<open>normal\<close> and one of \<open>int\<close>.
\<close>

theorem next_leaves_state_witness:
  "state (snd (rng_next (DeterministicRNG 42))) =
     (3025946483, 2374915594, 3460669608, 2115178705)
   \<and> next_stream 3 (DeterministicRNG 42) =
     [Fin (474455506 / 4294967296), Fin (474455506 / 4294967296),
      Fin (474455506 / 4294967296)]
   \<and> fst (rng_next (after_calls example_host [NormalC 0 2, IntC 1 (10 :: jsnum)]
        (DeterministicRNG 42))) = Fin (474455506 / 4294967296)"
  using next_leaves_state
    [of "DeterministicRNG 42" 3 example_host "[NormalC 0 2, IntC 1 (10 :: jsnum)]"]
  by (simp add: seed42_state next_of_seed42 numeral_3_eq_3)

text \<open>The outputs for one reference are those of its own calls on its own object.\<close>

lemma on_ref_Nil: "on_ref r [] = []"
  by (simp add: on_ref_def)

lemma on_ref_Cons: "on_ref r ((r', x) # xs) = (if r' = r then x # on_ref r xs else on_ref r xs)"
  by (simp add: on_ref_def)

lemma on_ref_exec:
  assumes "store r = Some g"
  shows "on_ref r (exec h steps store) = run_calls h (on_ref r steps) g"
  using assms
proof (induction steps arbitrary: store g)
  case Nil
  show ?case by (simp add: on_ref_Nil)
next
  case (Cons step steps)
  obtain r' c where step: "step = (r', c)"
    by (cases step)
  show ?case
  proof (cases "store r'")
    case None
    with Cons step show ?thesis
      by (auto simp: on_ref_Cons)
  next
    case (Some g0)
    obtain v g1 where inv: "invoke h c g0 = (v, g1)"
      by (cases "invoke h c g0")
    show ?thesis
    proof (cases "r' = r")
      case True
      with Cons.prems Some have g0: "g0 = g" by simp
      have "on_ref r (exec h steps (store(r \<mapsto> g1))) = run_calls h (on_ref r steps) g1"
        by (rule Cons.IH) simp
      with True Some inv step g0 show ?thesis
        by (simp add: on_ref_Cons)
    next
      case False
      have "on_ref r (exec h steps (store(r' \<mapsto> g1))) = run_calls h (on_ref r steps) g"
        using False Cons.prems by (intro Cons.IH) auto
      with False Some inv step show ?thesis
        by (simp add: on_ref_Cons)
    qed
  qed
qed

text \<open>
  C8. Two generator objects constructed with the same seed, held by one program and
  called in any interleaving, also with calls on other objects in between, return the
  same outputs when the same sequence of calls is made on each.
\<close>

theorem same_seed_same_outputs:
  assumes "store r1 = Some (DeterministicRNG seed)"
    and "store r2 = Some (DeterministicRNG seed)"
    and "on_ref r1 steps = on_ref r2 steps"
  shows "on_ref r1 (exec h steps store) = on_ref r2 (exec h steps store)"
  using assms by (simp add: on_ref_exec)

text \<open>
  C8, for two objects of seed 42 and a third of seed 7, with the calls interleaved.
\<close>

theorem same_seed_same_outputs_witness:
  "on_ref 1
     (exec example_host
        [(1, NextC), (2, NextC), (1, NormalC 0 2), (1, IntC 1 10), (3, NextC),
         (2, NormalC 0 2), (2, IntC 1 10), (1, ChoiceC [''a'', ''b'']), (2, ChoiceC [''a'', ''b''])]
        [1 \<mapsto> DeterministicRNG 42, 2 \<mapsto> DeterministicRNG 42, 3 \<mapsto> DeterministicRNG 7])
   = on_ref 2
     (exec example_host
        [(1, NextC), (2, NextC), (1, NormalC 0 2), (1, IntC 1 10), (3, NextC),
         (2, NormalC 0 2), (2, IntC 1 10), (1, ChoiceC [''a'', ''b'']), (2, ChoiceC [''a'', ''b''])]
        [1 \<mapsto> DeterministicRNG 42, 2 \<mapsto> DeterministicRNG 42, 3 \<mapsto> DeterministicRNG 7])"
  by (rule same_seed_same_outputs [where seed = 42]) (simp_all add: on_ref_def)

subsection \<open>The row hash\<close>

lemma toFixed_same_fixed:
  assumes "same_fixed f x y"
  shows "toFixed h x f = toFixed h y f"
proof (cases "x = y")
  case True
  then show ?thesis by simp
next
  case False
  with assms obtain a b where ab: "x = Fin a" "y = Fin b"
    and small: "\<bar>a\<bar> < 10 ^ 21" "\<bar>b\<bar> < 10 ^ 21"
    and sign: "(a < 0) = (b < 0)"
    and rnd: "rounded_at f a = rounded_at f b"
    by (auto simp: same_fixed_def split: jsnum.splits)
  from sign rnd have "\<lfloor>\<bar>a\<bar> * 10 ^ f + 1 / 2\<rfloor> = \<lfloor>\<bar>b\<bar> * 10 ^ f + 1 / 2\<rfloor>"
    by (auto simp: rounded_at_def split: if_splits)
  with ab small sign show ?thesis
    by (simp add: toFixed_def Let_def)
qed

text \<open>
  C7, as the code has it. Two rows with the same site, timestamp and status hash
  identically when each numeric field holds the same value in both, or two finite values
  below \<open>10^21\<close> in magnitude that are both negative or both not and round to the same
  multiple of \<open>10^-3\<close> (energy, power) or \<open>10^-1\<close> (irradiance, temperature).
\<close>

theorem hashTelemetryRow_fixed_precision:
  assumes "same_fixed 3 acEnergy acEnergy'" and "same_fixed 3 acPower acPower'"
    and "same_fixed 1 irr irr'" and "same_fixed 1 temp temp'"
  shows "hashTelemetryRow h site ts acEnergy acPower irr temp st =
         hashTelemetryRow h site ts acEnergy' acPower' irr' temp' st"
  using assms by (simp add: hashTelemetryRow_def toFixed_same_fixed [of _ _ _ h])

text \<open>
  C7, for two rows whose numeric fields differ but render alike: \<open>1.5004\<close> and
  \<open>1.4996\<close> are both \<open>1.500\<close>, \<open>-24.96\<close> and \<open>-25\<close> both \<open>-25.0\<close>.
\<close>

theorem hashTelemetryRow_fixed_precision_witness:
  "hashTelemetryRow example_host ''SITE1'' ''2024-01-01T00:00:00Z''
     (Fin 1.5004) (Fin 2) (Fin 100.04) (Fin (- 24.96)) ''OK'' =
   hashTelemetryRow example_host ''SITE1'' ''2024-01-01T00:00:00Z''
     (Fin 1.4996) (Fin 2.0004) (Fin 100) (Fin (- 25)) ''OK''"
  by (rule hashTelemetryRow_fixed_precision) (simp_all add: same_fixed_def rounded_at_def)

text \<open>Two rows that differ in the sign of an energy that rounds to zero, and their digests.\<close>

lemma row_data_negative:
  "join ''|'' [''SITE1'', ''2024-01-01T00:00:00Z'', toFixed example_host (Fin (- 1 / 4096)) 3,
      toFixed example_host 2 3, toFixed example_host 100 1, toFixed example_host 25 1, ''OK'']
   = ''SITE1|2024-01-01T00:00:00Z|-0.000|2.000|100.0|25.0|OK''"
  by (simp add: toFixed_def fixed_digits_def show_nat.simps jsnum_eval Let_def
      replicate_numeral_Cons)

lemma row_data_zero:
  "join ''|'' [''SITE1'', ''2024-01-01T00:00:00Z'', toFixed example_host (Fin 0) 3,
      toFixed example_host 2 3, toFixed example_host 100 1, toFixed example_host 25 1, ''OK'']
   = ''SITE1|2024-01-01T00:00:00Z|0.000|2.000|100.0|25.0|OK''"
  by (simp add: toFixed_def fixed_digits_def show_nat.simps jsnum_eval Let_def
      replicate_numeral_Cons)

lemma row_hash_negative:
  "hashTelemetryRow example_host ''SITE1'' ''2024-01-01T00:00:00Z''
     (Fin (- 1 / 4096)) 2 100 25 ''OK'' =
   ''c4c8cae14a95d99c3f7d14a64bce764e7432957fb87540e779bd6bf4a83c1f8d''"
  by (simp only: hashTelemetryRow_def Let_def row_data_negative sha256_row_negative)

lemma row_hash_zero:
  "hashTelemetryRow example_host ''SITE1'' ''2024-01-01T00:00:00Z''
     (Fin 0) 2 100 25 ''OK'' =
   ''dd5bea03823fa8089dfee89eab0a339e7535d083847cb1344e40bcaecb72fa80''"
  by (simp only: hashTelemetryRow_def Let_def row_data_zero sha256_row_zero)

text \<open>
  C7 as stated fails. An energy of \<open>-1/4096\<close> kWh (\<open>-0.000244140625\<close>, a double) and
  one of 0 are equal at three decimals, and so are the other fields, which are the same;
  but \<open>toFixed\<close> keeps the sign of a negative value whose digits round to zero, the rows
  are rendered with \<open>-0.000\<close> and with \<open>0.000\<close>, and the hashes differ.
\<close>

theorem hashTelemetryRow_sign_counterexample:
  "equal_at_precision 3 (Fin (- 1 / 4096)) (Fin 0)
   \<and> equal_at_precision 3 2 2 \<and> equal_at_precision 1 100 100 \<and> equal_at_precision 1 25 25
   \<and> hashTelemetryRow example_host ''SITE1'' ''2024-01-01T00:00:00Z''
         (Fin (- 1 / 4096)) 2 100 25 ''OK'' \<noteq>
       hashTelemetryRow example_host ''SITE1'' ''2024-01-01T00:00:00Z''
         (Fin 0) 2 100 25 ''OK''"
  unfolding row_hash_negative row_hash_zero
  by (simp add: equal_at_precision_def rounded_at_def jsnum_eval)

subsection \<open>The simulation model\<close>

text \<open>
  C9. Where the computed elevation of the sun is at most 0, \<open>calculateIrradiance\<close>
  returns 0 and the generator as it was: nothing more is computed and no draw is taken.
\<close>

theorem irradiance_zero_below_horizon:
  assumes "solarElevation h site date \<le> 0"
  shows "calculateIrradiance h site date g = (0, g)"
proof -
  obtain d e a where sp: "solarPosition h site date = (d, e, a)"
    by (cases "solarPosition h site date") auto
  with assms have "e \<le> 0"
    by (simp add: solarElevation_def)
  with sp show ?thesis
    by (simp add: calculateIrradiance_def)
qed

text \<open>The elevation of the sun on the equator at midnight UTC of 1 January 1970.\<close>

lemma daysSinceYearStart_0: "daysSinceYearStart example_host 0 = 0"
  by (simp add: daysSinceYearStart_def example_host_def getTime_def jsnum_eval)

lemma utcHoursOf_0: "utcHoursOf 0 = 0"
  by (simp add: utcHoursOf_def getUTCHours_def getUTCMinutes_def jsnum_eval)

lemma elevation_at_midnight:
  "solarElevation example_host equatorSite 0 =
     Fin (arcsin (- cos (23.45 * sin (285 * pi / 180) * pi / 180)))"
  apply (simp add: solarElevation_def solarPosition_def daysSinceYearStart_0 utcHoursOf_0 Let_def)
  apply (simp add: example_host_def equatorSite_def testSite_def jsnum_eval)
  done

lemma declination_small: "\<bar>23.45 * sin (285 * pi / 180) * pi / 180\<bar> \<le> pi / 2"
proof -
  have "\<bar>sin (285 * pi / 180)\<bar> \<le> 1"
    by (rule abs_sin_le_one)
  then have "\<bar>23.45 * sin (285 * pi / 180) * pi / 180\<bar> \<le> 23.45 * 1 * pi / 180"
    by (simp add: abs_mult)
  also have "\<dots> \<le> pi / 2"
    using pi_gt_zero by simp
  finally show ?thesis .
qed

lemma elevation_at_midnight_le: "solarElevation example_host equatorSite 0 \<le> 0"
proof -
  let ?d = "23.45 * sin (285 * pi / 180) * pi / 180 :: real"
  have "0 \<le> cos ?d"
    using declination_small by (intro cos_ge_zero) (simp_all add: abs_le_iff)
  moreover have "cos ?d \<le> 1"
    by simp
  ultimately have "arcsin (- cos ?d) \<le> arcsin 0"
    by (intro arcsin_le_arcsin) simp_all
  then show ?thesis
    by (simp add: elevation_at_midnight zero_jsnum_def)
qed

text \<open>
  C9, on the equator at midnight UTC of 1 January 1970: the sine of the elevation is minus
  the cosine of the declination, which is at most 23.45 degrees in magnitude.
\<close>

theorem irradiance_zero_below_horizon_witness:
  "calculateIrradiance example_host equatorSite 0 (DeterministicRNG 42) =
     (0, DeterministicRNG 42)"
  by (rule irradiance_zero_below_horizon) (rule elevation_at_midnight_le)

text \<open>\<open>checkOutage\<close> is true exactly when some window matches.\<close>

lemma outageIn_iff:
  "outageIn h tod dow ws \<longleftrightarrow>
     (\<exists>window\<in>set ws. parseTime h (w_start window) \<le> tod \<and> tod \<le> parseTime h (w_end window)
        \<and> matchesDayPattern dow (w_days window))"
  by (induction ws) (auto simp: Let_def)

text \<open>
  C4. At a time inside a configured outage window (the time of day within \<open>[start, end]\<close>
  and the weekday matching the pattern of days or the wildcard), for an interval of finitely
  many minutes, \<open>generateTelemetry\<close> sets the status to \<open>OUTAGE\<close> and power and energy
  to 0, whatever the curtailment probability, and leaves the generator as the wind
  calculation left it: \<open>checkCurtailment\<close> is not called and takes no draw.
\<close>

theorem outage_precedes_curtailment:
  assumes "window \<in> set (outageWindows site)"
    and "parseTime h (w_start window) \<le> utcHoursOf date"
    and "utcHoursOf date \<le> parseTime h (w_end window)"
    and "matchesDayPattern (getUTCDay date) (w_days window)"
  shows "case generateTelemetry h site date (Fin minutes) g of
           (t, g') \<Rightarrow>
             status t = ''OUTAGE'' \<and> acPowerKw t = 0 \<and> acEnergyKwh t = 0 \<and>
             g' = snd (calculateWindSpeed h date
                    (snd (calculateTemperature h site date
                       (snd (calculateIrradiance h site date g)))))"
proof -
  have "checkOutage h site date"
    using assms by (auto simp: checkOutage_def outageIn_iff Let_def)
  then show ?thesis
    by (simp add: generateTelemetry_def calculateEnergy_zero case_prod_unfold Let_def)
qed

text \<open>The two ends of the example window.\<close>

lemma parseTime_0000: "parseTime example_host ''00:00'' = 0"
  by (simp add: parseTime_def example_host_def array_get_def ToNumber_def jsnum_eval)

lemma parseTime_0630: "parseTime example_host ''06:30'' = Fin 6.5"
  by (simp add: parseTime_def example_host_def array_get_def ToNumber_def jsnum_eval)

text \<open>
  C4, at midnight UTC of Thursday 1 January 1970, inside the window 00:00 to 06:30 of
  Mondays and Thursdays, at a site whose curtailment probability is 1.
\<close>

theorem outage_precedes_curtailment_witness:
  "case generateTelemetry example_host equatorSite 0 (Fin 5) (DeterministicRNG 42) of
     (t, g') \<Rightarrow>
       status t = ''OUTAGE'' \<and> acPowerKw t = 0 \<and> acEnergyKwh t = 0 \<and>
       g' = snd (calculateWindSpeed example_host 0
              (snd (calculateTemperature example_host equatorSite 0
                 (snd (calculateIrradiance example_host equatorSite 0 (DeterministicRNG 42))))))"
proof (rule outage_precedes_curtailment)
  show "\<lparr>w_start = ''00:00'', w_end = ''06:30'', w_days = ''MON,THU''\<rparr>
      \<in> set (outageWindows equatorSite)"
    by (simp add: equatorSite_def)
  show "parseTime example_host (w_start \<lparr>w_start = ''00:00'', w_end = ''06:30'',
      w_days = ''MON,THU''\<rparr>) \<le> utcHoursOf 0"
    by (simp add: parseTime_0000 utcHoursOf_0 zero_jsnum_def)
  show "utcHoursOf 0 \<le> parseTime example_host (w_end \<lparr>w_start = ''00:00'', w_end = ''06:30'',
      w_days = ''MON,THU''\<rparr>)"
    by (simp add: parseTime_0630 utcHoursOf_0 zero_jsnum_def)
  show "matchesDayPattern (getUTCDay 0) (w_days \<lparr>w_start = ''00:00'', w_end = ''06:30'',
      w_days = ''MON,THU''\<rparr>)"
    by (simp add: matchesDayPattern_def getUTCDay_def dayNames_def startsWith_def)
qed

text \<open>Without the property that it reads, \<open>calculateAcPower\<close> returns \<open>NaN\<close>.\<close>

lemma calculateAcPower_no_limit:
  assumes "site_capacityAcKw site = None"
  shows "calculateAcPower site dcPowerKw = NaN"
  using assms by (simp add: calculateAcPower_def ToNumber_def Math_min_NaN roundToDecimals_NaN)

text \<open>
  C2, what the code does. \<open>calculateAcPower\<close> reads \<open>capacityAcKw\<close>, which an object
  of the schema does not have (its property is \<open>capacityAcKW\<close>). The limit is
  \<open>undefined\<close>, \<open>Math.min\<close> returns \<open>NaN\<close>, and so does the method, for every DC
  power.
\<close>

theorem calculateAcPower_not_a_number:
  assumes "siteConfigSchema site"
  shows "calculateAcPower site dcPowerKw = NaN"
  using assms by (simp add: siteConfigSchema_def site_capacityAcKw_def calculateAcPower_no_limit)

text \<open>
  C2, at the site of the repository's tests and the call of its test
  \<open>should respect AC capacity limit\<close>: the site is a value of the schema, and
  \<open>calculateAcPower(2000)\<close> is \<open>NaN\<close>, which is not at most 800.
\<close>

theorem calculateAcPower_not_a_number_witness:
  "siteConfigSchema testSite \<and> calculateAcPower testSite 2000 = NaN
   \<and> \<not> calculateAcPower testSite 2000 \<le> capacityAcKW testSite"
proof -
  have ok: "siteConfigSchema testSite"
    by (simp add: siteConfigSchema_def testSite_def jsnum_eval)
  with calculateAcPower_not_a_number [OF ok, of 2000] show ?thesis
    by simp
qed

text \<open>So a record generated in daylight, with no outage and no curtailment, holds \<open>NaN\<close>.\<close>

lemma generateTelemetry_not_a_number:
  assumes "siteConfigSchema site"
    and "\<not> checkOutage h site date"
    and "\<not> fst (checkCurtailment site (snd (calculateWindSpeed h date
            (snd (calculateTemperature h site date (snd (calculateIrradiance h site date g)))))))"
    and "0 < fst (calculateIrradiance h site date g)"
  shows "acPowerKw (fst (generateTelemetry h site date minutes g)) = NaN
       \<and> acEnergyKwh (fst (generateTelemetry h site date minutes g)) = NaN"
  using assms
  by (simp add: generateTelemetry_def case_prod_unfold Let_def calculateAcPower_no_limit
      siteConfigSchema_def site_capacityAcKw_def calculateEnergy_def roundToDecimals_NaN)

text \<open>
  At the site of the tests there is no outage and no curtailment, so every record of a
  time with irradiance holds \<open>NaN\<close>.
\<close>

lemma testSite_daylight_not_a_number:
  assumes "0 < fst (calculateIrradiance h testSite date g)"
  shows "acPowerKw (fst (generateTelemetry h testSite date minutes g)) = NaN
       \<and> acEnergyKwh (fst (generateTelemetry h testSite date minutes g)) = NaN"
proof (rule generateTelemetry_not_a_number)
  show "siteConfigSchema testSite"
    by (simp add: siteConfigSchema_def testSite_def jsnum_eval)
  show "\<not> checkOutage h testSite date"
    by (simp add: checkOutage_def testSite_def)
  show "\<not> fst (checkCurtailment testSite (snd (calculateWindSpeed h date
          (snd (calculateTemperature h testSite date
             (snd (calculateIrradiance h testSite date g)))))))"
    using rng_next_nonneg
    by (simp add: checkCurtailment_def testSite_def case_prod_unfold jsnum_eval)
  show "0 < fst (calculateIrradiance h testSite date g)"
    by (rule assms)
qed

text \<open>
  On an object that does carry \<open>capacityAcKw\<close>, as a row of the sites table does, the
  clip works: the AC power is at most the capacity rounded to three decimals.
\<close>

lemma roundToDecimals_Fin:
  "roundToDecimals (Fin a) d = Fin (of_int \<lfloor>a * 10 ^ d + 1 / 2\<rfloor> / 10 ^ d)"
  by (simp add: roundToDecimals_def)

lemma roundToDecimals_mono:
  assumes "a \<le> b"
  shows "roundToDecimals (Fin a) d \<le> roundToDecimals (Fin b) d"
proof -
  have "\<lfloor>a * 10 ^ d + 1 / 2\<rfloor> \<le> \<lfloor>b * 10 ^ d + 1 / 2\<rfloor>"
    using assms by (intro floor_mono) (simp add: mult_right_mono)
  then have "(of_int \<lfloor>a * 10 ^ d + 1 / 2\<rfloor> :: real) / 10 ^ d \<le> of_int \<lfloor>b * 10 ^ d + 1 / 2\<rfloor> / 10 ^ d"
    by (simp add: divide_right_mono)
  then show ?thesis
    by (simp add: roundToDecimals_Fin)
qed

lemma calculateAcPower_clipped:
  assumes "site_capacityAcKw site = Some (Fin cap)" and "inverterEff site = Fin eff"
  shows "calculateAcPower site (Fin dc) \<le> roundToDecimals (Fin cap) 3"
proof -
  have "Math_min (Fin (dc * eff)) (Fin cap) = Fin (min (dc * eff) cap)"
    by (simp add: Math_min_def min_def)
  then have "calculateAcPower site (Fin dc) = roundToDecimals (Fin (min (dc * eff) cap)) 3"
    using assms by (simp add: calculateAcPower_def ToNumber_def)
  then show ?thesis
    by (simp add: roundToDecimals_mono)
qed

subsection \<open>The anchor client\<close>

text \<open>
  C10. With anchoring disabled, \<open>anchorDigest\<close> returns the failure
  \<open>Anchoring is disabled\<close> with empty transaction fields and \<open>checkAnchorStatus\<close>
  returns \<open>ok = false\<close> with the same error; the world is as before, so no HTTP request
  was made.
\<close>

theorem anchoring_disabled:
  assumes "\<not> enabled client"
  shows "anchorDigest client site day merkleRoot u w =
           (\<lparr>adapterTxId = '''', txHash = '''', blockNumber = 0, success = False,
             error = Some ''Anchoring is disabled''\<rparr>, w)
         \<and> checkAnchorStatus client w =
           (\<lparr>ok = False, status_error = Some ''Anchoring is disabled''\<rparr>, w)"
  using assms by (simp add: anchorDigest_def checkAnchorStatus_def failure_def)

text \<open>C10, for a client with anchoring disabled, before any call.\<close>

theorem anchoring_disabled_witness:
  "anchorDigest \<lparr>enabled = False\<rparr> ''PRJ001'' ''2024-01-01'' ''ab12'' None (start down_service) =
     (\<lparr>adapterTxId = '''', txHash = '''', blockNumber = 0, success = False,
       error = Some ''Anchoring is disabled''\<rparr>, start down_service)
   \<and> checkAnchorStatus \<lparr>enabled = False\<rparr> (start down_service) =
     (\<lparr>ok = False, status_error = Some ''Anchoring is disabled''\<rparr>, start down_service)"
  by (rule anchoring_disabled) simp

text \<open>A failure of \<open>anchorDigest\<close> carries an error, and a call makes at most one request.\<close>

lemma anchorDigest_failure_has_error:
  assumes "\<not> success (fst (anchorDigest client site day merkleRoot u w))"
  shows "error (fst (anchorDigest client site day merkleRoot u w)) \<noteq> None"
  using assms
  by (cases "service w (calls w)")
    (auto simp: anchorDigest_def failure_def http_def Let_def split: if_splits)

lemma anchorDigest_calls:
  "calls (snd (anchorDigest client site day merkleRoot u w)) \<le> calls w + 1"
  by (cases "service w (calls w)") (auto simp: anchorDigest_def http_def emit_def Let_def)

text \<open>
  C6. With the default of three attempts, \<open>anchorDigestWithRetry\<close> calls
  \<open>anchorDigest\<close> up to three times, sleeps 2 seconds after a failed first attempt and 4
  after a failed second one, returns the first successful response as it is, and after
  three failures returns a failure whose message holds the number of attempts and the last
  error. It returns in every case.
\<close>

theorem retry_three_attempts:
  "anchorDigestWithRetry client site day merkleRoot u 3 w =
     (case anchorDigest client site day merkleRoot u w of (r1, w1) \<Rightarrow>
        if success r1 then (r1, w1)
        else
          (case anchorDigest client site day merkleRoot u
                  (emit (Sleep 2000)
                     (emit (ConsoleLog ''Anchor attempt 1 failed, retrying in 2000ms...'') w1))
           of (r2, w2) \<Rightarrow>
             if success r2 then (r2, w2)
             else
               (case anchorDigest client site day merkleRoot u
                       (emit (Sleep 4000)
                          (emit (ConsoleLog ''Anchor attempt 2 failed, retrying in 4000ms...'') w2))
                of (r3, w3) \<Rightarrow>
                  if success r3 then (r3, w3)
                  else
                    (\<lparr>adapterTxId = '''', txHash = '''', blockNumber = 0, success = False,
                      error = Some (''Failed after 3 attempts: '' @
                        (case error r3 of Some e \<Rightarrow> e | None \<Rightarrow> ''undefined''))\<rparr>, w3))))"
proof -
  let ?v1 = "\<lambda>w1. emit (Sleep 2000)
      (emit (ConsoleLog ''Anchor attempt 1 failed, retrying in 2000ms...'') w1)"
  let ?v2 = "\<lambda>w2. emit (Sleep 4000)
      (emit (ConsoleLog ''Anchor attempt 2 failed, retrying in 4000ms...'') w2)"
  obtain r1 w1 where a1: "anchorDigest client site day merkleRoot u w = (r1, w1)"
    by (cases "anchorDigest client site day merkleRoot u w")
  obtain r2 w2 where a2: "anchorDigest client site day merkleRoot u (?v1 w1) = (r2, w2)"
    by (cases "anchorDigest client site day merkleRoot u (?v1 w1)")
  obtain r3 w3 where a3: "anchorDigest client site day merkleRoot u (?v2 w2) = (r3, w3)"
    by (cases "anchorDigest client site day merkleRoot u (?v2 w2)")
  have one: "retryFrom client site day merkleRoot u 3 (Suc 0) None w =
      (if success r1 then (r1, w1) else retryFrom client site day merkleRoot u 3 (Suc (Suc 0)) (error r1) (?v1 w1))"
    by (subst retryFrom.simps) (simp add: a1 backoff_def show_nat.simps)
  have two: "retryFrom client site day merkleRoot u 3 (Suc (Suc 0)) (error r1) (?v1 w1) =
      (if success r2 then (r2, w2) else retryFrom client site day merkleRoot u 3 (Suc (Suc (Suc 0))) (error r2) (?v2 w2))"
    by (subst retryFrom.simps) (simp add: a2 backoff_def show_nat.simps)
  have three: "retryFrom client site day merkleRoot u 3 (Suc (Suc (Suc 0))) (error r2) (?v2 w2) =
      (if success r3 then (r3, w3) else retryFrom client site day merkleRoot u 3 (Suc (Suc (Suc (Suc 0)))) (error r3) w3)"
    by (subst retryFrom.simps) (simp add: a3 backoff_def)
  have four: "retryFrom client site day merkleRoot u 3 (Suc (Suc (Suc (Suc 0)))) (error r3) w3 =
      (failure (Some (''Failed after 3 attempts: '' @
         (case error r3 of Some e \<Rightarrow> e | None \<Rightarrow> ''undefined''))), w3)"
    by (subst retryFrom.simps) (simp add: show_nat.simps)
  show ?thesis
    by (simp add: anchorDigestWithRetry_def one two three four a1 a2 a3 failure_def)
qed

text \<open>
  C6, against a service that times out twice and then answers (the third response is
  returned, after pauses of 2000 and 4000 ms) and against one that is down (three calls,
  the same two pauses, and a failure that names the three attempts and the last error).
\<close>

theorem retry_three_attempts_witness:
  "fst (anchorDigestWithRetry \<lparr>enabled = True\<rparr> ''PRJ001'' ''2024-01-01'' ''ab12'' None 3
          (start flaky_service)) =
     \<lparr>adapterTxId = ''adapter-7'', txHash = ''0xfeed'', blockNumber = 12, success = True,
      error = None\<rparr>
   \<and> sleeps (trace (snd (anchorDigestWithRetry \<lparr>enabled = True\<rparr> ''PRJ001'' ''2024-01-01''
          ''ab12'' None 3 (start flaky_service)))) = [2000, 4000]
   \<and> fst (anchorDigestWithRetry \<lparr>enabled = True\<rparr> ''PRJ001'' ''2024-01-01'' ''ab12'' None 3
          (start down_service)) =
     \<lparr>adapterTxId = '''', txHash = '''', blockNumber = 0, success = False,
      error = Some ''Failed after 3 attempts: registry unavailable''\<rparr>
   \<and> sleeps (trace (snd (anchorDigestWithRetry \<lparr>enabled = True\<rparr> ''PRJ001'' ''2024-01-01''
          ''ab12'' None 3 (start down_service)))) = [2000, 4000]
   \<and> calls (snd (anchorDigestWithRetry \<lparr>enabled = True\<rparr> ''PRJ001'' ''2024-01-01''
          ''ab12'' None 3 (start down_service))) = 3"
  by (simp add: retry_three_attempts anchorDigest_def http_def emit_def start_def
      flaky_service_def down_service_def failure_def axios_message_def startsWith_def)

end
